theory Spec2Isabelle
  imports Main "HOL-Library.Char_ord" "HOL-Library.List_Lexorder"
begin

section \<open>Strings\<close>

text \<open>
  Python strings are modelled as \<open>string\<close> (a list of characters). The comparison
  operators of Python on strings are the lexicographic order on the lists of characters
  (a proper prefix sorts first), which is the order of \<open>List_Lexorder\<close> over \<open>Char_ord\<close>.
  The test \<open>sub in s\<close> is \<open>contains sub s\<close>: \<open>sub\<close> occurs in \<open>s\<close> as a contiguous
  block.
\<close>

fun starts_with :: "string \<Rightarrow> string \<Rightarrow> bool" where
  "starts_with [] s = True"
| "starts_with (c # cs) [] = False"
| "starts_with (c # cs) (d # ds) = (c = d \<and> starts_with cs ds)"

fun contains :: "string \<Rightarrow> string \<Rightarrow> bool" where
  "contains sub [] = (sub = [])"
| "contains sub (c # cs) = (starts_with sub (c # cs) \<or> contains sub cs)"

section \<open>The worksheet\<close>

text \<open>
  Modelled from the spec: the worksheet object returned by \<open>init_GWorkSheet\<close> and its
  operations \<open>col_values\<close>, \<open>row_values\<close>, \<open>insert_row\<close>, \<open>insert_cols\<close> and
  \<open>update_cell\<close> are not part of the source file. Following sections 3, 4.2 and 6 of
  the specification, the grid is a table addressed by 1-indexed (row, column)
  coordinates, stored here as a list of rows, each row a list of cells; a cell that is
  not stored reads as the empty string. Inserting a row (a column) at a position pushes
  the rows (columns) from that position on by one and leaves the ones before it alone;
  writing a cell changes that cell only.
\<close>

type_synonym worksheet = "string list list"

definition pad :: "nat \<Rightarrow> 'a \<Rightarrow> 'a list \<Rightarrow> 'a list" where
  "pad n d xs = xs @ replicate (n - length xs) d"

definition insert_at :: "nat \<Rightarrow> 'a \<Rightarrow> 'a \<Rightarrow> 'a list \<Rightarrow> 'a list" where
  "insert_at k d v xs = take k (pad k d xs) @ v # drop k xs"


definition col_values :: "worksheet \<Rightarrow> nat \<Rightarrow> string list" where
  "col_values ws c = map (\<lambda>row. if 1 \<le> c \<and> c \<le> length row then row ! (c - 1) else []) ws"

definition row_values :: "worksheet \<Rightarrow> nat \<Rightarrow> string list" where
  "row_values ws r = (if 1 \<le> r \<and> r \<le> length ws then ws ! (r - 1) else [])"

definition insert_row :: "string list \<Rightarrow> nat \<Rightarrow> worksheet \<Rightarrow> worksheet" where
  "insert_row body index ws = insert_at (index - 1) [] body ws"

text \<open>
  \<open>insert_cols ws [[v]] col\<close>: one new column whose first cell is \<open>v\<close>; the other
  cells of the new column are empty. A sheet without rows gets its first row.
\<close>

definition insert_cols :: "worksheet \<Rightarrow> string \<Rightarrow> nat \<Rightarrow> worksheet" where
  "insert_cols ws v col =
     (case ws of
        [] \<Rightarrow> [insert_at (col - 1) [] v []]
      | r # rs \<Rightarrow> insert_at (col - 1) [] v r # map (insert_at (col - 1) [] []) rs)"

definition update_cell :: "worksheet \<Rightarrow> nat \<Rightarrow> nat \<Rightarrow> string \<Rightarrow> worksheet" where
  "update_cell ws r c v =
     (let rows = pad r [] ws
      in rows[r - 1 := (pad c [] (rows ! (r - 1)))[c - 1 := v]])"

section \<open>The ordered grid positioner\<close>

text \<open>
  The \<open>for header in values_list\<close> loop of \<open>get_GWorkSheetCellPosition\<close>, started
  with \<open>pos = 2\<close> and \<open>found = False\<close>; \<open>break\<close> ends the recursion.
\<close>

fun period_scan :: "string \<Rightarrow> string list \<Rightarrow> nat \<Rightarrow> nat \<times> bool" where
  "period_scan accounting_period [] pos = (pos, False)"
| "period_scan accounting_period (header # rest) pos =
     (if \<not> contains ''Period'' header then
        (if header = accounting_period \<or> header = [] then (pos, True)
         else if header < accounting_period
           then period_scan accounting_period rest (pos + 1)
           else period_scan accounting_period rest pos)
      else period_scan accounting_period rest pos)"

definition get_GWorkSheetCellPosition :: "worksheet \<Rightarrow> string \<Rightarrow> nat \<times> bool" where
  "get_GWorkSheetCellPosition worksheet accounting_period =
     (let values_list = col_values worksheet 1
      in if length values_list > 1 then period_scan accounting_period values_list 2
         else (2, False))"

text \<open>The loop of \<open>get_vo_cell\<close>, written out in the source a second time.\<close>

fun vo_scan :: "string \<Rightarrow> string list \<Rightarrow> nat \<Rightarrow> nat \<times> bool" where
  "vo_scan vo_name [] vo_name_pos = (vo_name_pos, False)"
| "vo_scan vo_name (header # rest) vo_name_pos =
     (if \<not> contains ''Period'' header then
        (if header = vo_name \<or> header = [] then (vo_name_pos, True)
         else if header < vo_name
           then vo_scan vo_name rest (vo_name_pos + 1)
           else vo_scan vo_name rest vo_name_pos)
      else vo_scan vo_name rest vo_name_pos)"

text \<open>
  The position and the flag that \<open>get_vo_cell\<close> has computed when it reaches
  \<open>if not found\<close>.
\<close>

definition vo_locate :: "worksheet \<Rightarrow> string \<Rightarrow> nat \<times> bool" where
  "vo_locate worksheet vo_name =
     (let values_list = row_values worksheet 1
      in if length values_list > 1 then vo_scan vo_name values_list 2
         else (2, False))"

definition get_vo_cell :: "worksheet \<Rightarrow> string \<Rightarrow> worksheet \<times> nat" where
  "get_vo_cell worksheet vo_name =
     (case vo_locate worksheet vo_name of
        (vo_name_pos, found) \<Rightarrow>
          if \<not> found then (insert_cols worksheet vo_name vo_name_pos, vo_name_pos)
          else (worksheet, vo_name_pos))"

section \<open>Cell values\<close>

text \<open>
  \<open>format(n, "7,d")\<close>: the decimal digits of \<open>n\<close> grouped by thousands with commas,
  a minus sign for a negative number, right-aligned with spaces to a width of 7.
\<close>

fun dec_digits :: "nat \<Rightarrow> string" where
  "dec_digits n =
     (if n < 10 then [''0123456789'' ! n]
      else dec_digits (n div 10) @ [''0123456789'' ! (n mod 10)])"

declare dec_digits.simps [simp del]

fun group3 :: "string \<Rightarrow> string" where
  "group3 (a # b # c # d # rest) = a # b # c # CHR '','' # group3 (d # rest)"
| "group3 s = s"

definition format_7d :: "int \<Rightarrow> string" where
  "format_7d n =
     (let body = (if n < 0 then ''-'' else []) @ rev (group3 (rev (dec_digits (nat \<bar>n\<bar>))))
      in replicate (7 - length body) CHR '' '' @ body)"

definition strip :: "string \<Rightarrow> string" where
  "strip s = rev (dropWhile (\<lambda>c. c = CHR '' '') (rev (dropWhile (\<lambda>c. c = CHR '' '') s)))"

section \<open>Settings, registry entries, metric records\<close>

text \<open>
  The settings \<open>env\<close> come from \<open>get_env_settings\<close>, which is not part of the source
  file; the three settings below are the ones that \<open>main\<close> reads outside of the request
  URL and the console output.
\<close>

record env =
  ACCOUNTING_SCOPE :: string
  DATE_FROM :: string
  DATE_TO :: string

text \<open>
  One entry \<open>details\<close> of the registry file and one \<open>record\<close> of the fetched data are
  Python dictionaries. A key that is absent is \<open>None\<close>, and reading it raises
  \<open>KeyError\<close>.
\<close>

record details =
  Name :: "string option"
  Type :: "string option"
  Active :: "string option"
  SLA_start :: "string option"
  SLA_end :: "string option"
  CPU_h :: "int option"

record metric =
  rec_id :: "string option"
  rec_Total :: "int option"

record vo_details =
  vo :: "details list"

record VO_items =
  vos :: "vo_details list"

datatype exn = KeyError string

text \<open>
  What a run changes besides the registry entries: the worksheet, the accumulator
  \<open>total_cpu\<close>, and two traces, the names passed to \<open>get_accounting_data\<close> and the
  (row, column, value) triples passed to \<open>update_cell\<close>, both in call order.
\<close>

record state =
  sheet :: worksheet
  total_cpu :: int
  fetched :: "string list"
  written :: "(nat \<times> nat \<times> string) list"

section \<open>The aggregator\<close>

text \<open>\<open>env['DATE_FROM'][0:4] + "." + env['DATE_FROM'][-2:] + "-" + env['DATE_TO'][-2:]\<close>\<close>

definition accounting_period :: "env \<Rightarrow> string" where
  "accounting_period e =
     take 4 (DATE_FROM e) @ ''.'' @ drop (length (DATE_FROM e) - 2) (DATE_FROM e)
       @ ''-'' @ drop (length (DATE_TO e) - 2) (DATE_TO e)"

text \<open>
  Lines 177 to 188 of \<open>main\<close>: locate the reporting period on column 1 and insert the row
  \<open>[accounting_period, total_cpu]\<close> when it was not found; \<open>total_cpu\<close> is still 0.
\<close>

definition locate_period :: "worksheet \<Rightarrow> string \<Rightarrow> worksheet \<times> nat" where
  "locate_period worksheet ap =
     (case get_GWorkSheetCellPosition worksheet ap of
        (accounting_period_pos, found_position) \<Rightarrow>
          if \<not> found_position
          then (insert_row [ap, ''0''] accounting_period_pos worksheet, accounting_period_pos)
          else (worksheet, accounting_period_pos))"

definition update_GWorkSheet :: "state \<Rightarrow> nat \<Rightarrow> nat \<Rightarrow> string \<Rightarrow> state" where
  "update_GWorkSheet st accounting_period_pos vo_name_pos v =
     st\<lparr>sheet := update_cell (sheet st) accounting_period_pos vo_name_pos v,
        written := written st @ [(accounting_period_pos, vo_name_pos, v)]\<rparr>"

text \<open>
  The condition of lines 201 to 204. \<open>and\<close> evaluates from left to right and stops at the
  first operand that is false, so a key is read only when every check before it passed.
\<close>

definition eligible :: "env \<Rightarrow> details \<Rightarrow> exn + bool" where
  "eligible e d =
     (case Type d of None \<Rightarrow> Inl (KeyError ''Type'') | Some ty \<Rightarrow>
      if \<not> contains (ACCOUNTING_SCOPE e) ty then Inr False else
     (case SLA_start d of None \<Rightarrow> Inl (KeyError ''SLA_start'') | Some s \<Rightarrow>
      if \<not> DATE_FROM e \<ge> s then Inr False else
     (case SLA_end d of None \<Rightarrow> Inl (KeyError ''SLA_end'') | Some t \<Rightarrow>
      if \<not> DATE_TO e \<le> t then Inr False else
     (case Active d of None \<Rightarrow> Inl (KeyError ''Active'') | Some a \<Rightarrow>
      Inr (a = ''Y'')))))"

text \<open>
  The body of \<open>for record in data\<close> (lines 216 to 235) for one record. The result is the
  exception raised, if any, with the registry entry and the state as they are at that
  moment. The console output is not modelled.
\<close>

definition process_record ::
  "nat \<Rightarrow> metric \<Rightarrow> details \<Rightarrow> state \<Rightarrow> exn option \<times> details \<times> state" where
  "process_record accounting_period_pos record d st =
     (case rec_id record of None \<Rightarrow> (Some (KeyError ''id''), d, st) | Some i \<Rightarrow>
      if \<not> contains ''Percent'' i \<and> \<not> contains ''Total'' i \<and> rec_Total record = None
        then (Some (KeyError ''Total''), d, st)
      else if contains ''Total'' i then
       (case rec_Total record of None \<Rightarrow> (Some (KeyError ''Total''), d, st) | Some t \<Rightarrow>
       (case CPU_h d of None \<Rightarrow> (Some (KeyError ''CPU/h''), d, st) | Some c \<Rightarrow>
        let d1 = d\<lparr>CPU_h := Some (c + t)\<rparr>;
            st1 = st\<lparr>total_cpu := total_cpu st + t\<rparr>
        in (case Name d1 of None \<Rightarrow> (Some (KeyError ''Name''), d1, st1) | Some n \<Rightarrow>
            (case get_vo_cell (sheet st1) n of
               (ws, vo_name_pos) \<Rightarrow>
                 (None, d1,
                  update_GWorkSheet (st1\<lparr>sheet := ws\<rparr>) accounting_period_pos vo_name_pos
                    (format_7d t))))))
      else (None, d, st))"

fun process_records ::
  "nat \<Rightarrow> metric list \<Rightarrow> details \<Rightarrow> state \<Rightarrow> exn option \<times> details \<times> state" where
  "process_records pos [] d st = (None, d, st)"
| "process_records pos (record # rest) d st =
     (case process_record pos record d st of
        (Some x, d1, st1) \<Rightarrow> (Some x, d1, st1)
      | (None, d1, st1) \<Rightarrow> process_records pos rest d1 st1)"

text \<open>
  The body of the innermost registry loop (lines 201 to 238). \<open>fetch\<close> stands for
  \<open>get_accounting_data\<close>: the data returned for a name, the empty list when the answer
  could not be parsed. \<open>except KeyError: pass\<close> drops the exception and keeps the state.
\<close>

definition process_details ::
  "env \<Rightarrow> (string \<Rightarrow> metric list) \<Rightarrow> nat \<Rightarrow> details \<Rightarrow> state
     \<Rightarrow> exn option \<times> details \<times> state" where
  "process_details e fetch accounting_period_pos d st =
     (case eligible e d of
        Inl x \<Rightarrow> (Some x, d, st)
      | Inr False \<Rightarrow> (None, d, st)
      | Inr True \<Rightarrow>
         (case Name d of None \<Rightarrow> (Some (KeyError ''Name''), d, st) | Some n \<Rightarrow>
          let data = fetch n;
              st1 = st\<lparr>fetched := fetched st @ [n]\<rparr>
          in (case (if data \<noteq> [] then process_records accounting_period_pos data d st1
                    else (None, d, st1)) of
                (Some (KeyError k), d2, st2) \<Rightarrow> (None, d2, st2)
              | (None, d2, st2) \<Rightarrow> (None, d2, st2))))"

text \<open>
  A \<open>for\<close> loop whose body may raise and may change the element it visits: the loop stops
  at the first exception; the elements visited so far are returned as changed.
\<close>

fun for_each ::
  "('a \<Rightarrow> 's \<Rightarrow> exn option \<times> 'a \<times> 's) \<Rightarrow> 'a list \<Rightarrow> 's \<Rightarrow> exn option \<times> 'a list \<times> 's" where
  "for_each body [] st = (None, [], st)"
| "for_each body (x # xs) st =
     (case body x st of
        (Some e, x1, st1) \<Rightarrow> (Some e, x1 # xs, st1)
      | (None, x1, st1) \<Rightarrow>
          (case for_each body xs st1 of (r, xs1, st2) \<Rightarrow> (r, x1 # xs1, st2)))"

definition process_vo_details ::
  "env \<Rightarrow> (string \<Rightarrow> metric list) \<Rightarrow> nat \<Rightarrow> vo_details \<Rightarrow> state
     \<Rightarrow> exn option \<times> vo_details \<times> state" where
  "process_vo_details e fetch pos v st =
     (case for_each (process_details e fetch pos) (vo v) st of
        (r, ds, st1) \<Rightarrow> (r, v\<lparr>vo := ds\<rparr>, st1))"

definition process_VO_items ::
  "env \<Rightarrow> (string \<Rightarrow> metric list) \<Rightarrow> nat \<Rightarrow> VO_items \<Rightarrow> state
     \<Rightarrow> exn option \<times> VO_items \<times> state" where
  "process_VO_items e fetch pos V st =
     (case for_each (process_vo_details e fetch pos) (vos V) st of
        (r, vs, st1) \<Rightarrow> (r, V\<lparr>vos := vs\<rparr>, st1))"

text \<open>
  \<open>main\<close> from the computation of the period label to the end of the registry loops, on
  the worksheet \<open>ws\<close> and the registry \<open>VOs\<close>. The first component of the result is the
  exception that ended the run, \<open>None\<close> when the run reached the report.
\<close>

definition main :: "env \<Rightarrow> (string \<Rightarrow> metric list) \<Rightarrow> VO_items list \<Rightarrow> worksheet
     \<Rightarrow> exn option \<times> VO_items list \<times> state" where
  "main e fetch VOs ws =
     (case locate_period ws (accounting_period e) of
        (ws1, accounting_period_pos) \<Rightarrow>
          for_each (process_VO_items e fetch accounting_period_pos) VOs
            \<lparr>sheet = ws1, total_cpu = 0, fetched = [], written = []\<rparr>)"

text \<open>The total printed by the report: \<open>format(total_cpu, "7,d").strip()\<close>.\<close>

definition report_total :: "state \<Rightarrow> string" where
  "report_total st = strip (format_7d (total_cpu st))"

section \<open>The column scan as the specification words it\<close>

text \<open>
  The specification describes the column scan as one that has no header marker to skip:
  every label is compared with the candidate, and an empty label ends the scan. This is
  that scan, for comparison with \<open>vo_scan\<close>.
\<close>

fun vo_scan_every_label :: "string \<Rightarrow> string list \<Rightarrow> nat \<Rightarrow> nat \<times> bool" where
  "vo_scan_every_label vo_name [] vo_name_pos = (vo_name_pos, False)"
| "vo_scan_every_label vo_name (header # rest) vo_name_pos =
     (if header = vo_name \<or> header = [] then (vo_name_pos, True)
      else if header < vo_name
        then vo_scan_every_label vo_name rest (vo_name_pos + 1)
        else vo_scan_every_label vo_name rest vo_name_pos)"

section \<open>Registries\<close>

text \<open>
  The entries of a registry in the order in which the three nested loops of \<open>main\<close>
  visit them, and the entries that have the five keys read outside of the \<open>try\<close> block.
\<close>

definition keys_present :: "details \<Rightarrow> bool" where
  "keys_present d = (Name d \<noteq> None \<and> Type d \<noteq> None \<and> Active d \<noteq> None
     \<and> SLA_start d \<noteq> None \<and> SLA_end d \<noteq> None)"

definition registry_entries :: "VO_items list \<Rightarrow> details list" where
  "registry_entries VOs = concat (map vo (concat (map vos VOs)))"

section \<open>What a run adds up\<close>

text \<open>
  Read off the loop of lines 215 to 235. A record raises \<open>KeyError\<close> when it has no
  \<open>id\<close>, when its \<open>Total\<close> is read (its id contains \<open>Total\<close>, or neither marker) and
  is absent, or when it is to be counted for an entry without \<open>CPU/h\<close> or \<open>Name\<close>. The
  records that the loop reaches are the ones before the first record that raises
  (\<open>reached\<close>). The records that it counts are the reached ones that pass the test of
  line 218, \<open>"Total" in record['id']\<close> (\<open>counted\<close>).
\<close>

definition record_raises :: "details \<Rightarrow> metric \<Rightarrow> bool" where
  "record_raises d r =
     (case rec_id r of None \<Rightarrow> True | Some i \<Rightarrow>
        if contains ''Total'' i then rec_Total r = None \<or> CPU_h d = None \<or> Name d = None
        else \<not> contains ''Percent'' i \<and> rec_Total r = None)"

definition counted :: "metric \<Rightarrow> bool" where
  "counted r = (case rec_id r of None \<Rightarrow> False | Some i \<Rightarrow> contains ''Total'' i)"

definition reached :: "details \<Rightarrow> metric list \<Rightarrow> metric list" where
  "reached d data = takeWhile (\<lambda>r. \<not> record_raises d r) data"

definition record_total :: "metric \<Rightarrow> int" where
  "record_total r = (case rec_Total r of None \<Rightarrow> 0 | Some t \<Rightarrow> t)"

definition entity_sum :: "details \<Rightarrow> metric list \<Rightarrow> int" where
  "entity_sum d data = sum_list (map record_total (filter counted (reached d data)))"

definition entity_share :: "env \<Rightarrow> (string \<Rightarrow> metric list) \<Rightarrow> details \<Rightarrow> int" where
  "entity_share e fetch d =
     (if eligible e d = Inr True
      then (case Name d of None \<Rightarrow> 0 | Some n \<Rightarrow> entity_sum d (fetch n)) else 0)"

definition run_sum :: "env \<Rightarrow> (string \<Rightarrow> metric list) \<Rightarrow> VO_items list \<Rightarrow> int" where
  "run_sum e fetch VOs = sum_list (map (entity_share e fetch) (registry_entries VOs))"

text \<open>
  The sum as the specification words it, for comparison: a record qualifies when its id
  contains \<open>Total\<close> and does not contain \<open>Percent\<close> (section 4.4), and the total of a run
  is the sum of the \<open>Total\<close> values of all the qualifying records fetched for the
  eligible entries.
\<close>

definition spec_qualifying :: "metric \<Rightarrow> bool" where
  "spec_qualifying r =
     (case rec_id r of None \<Rightarrow> False
      | Some i \<Rightarrow> contains ''Total'' i \<and> \<not> contains ''Percent'' i)"

definition spec_entity_share :: "env \<Rightarrow> (string \<Rightarrow> metric list) \<Rightarrow> details \<Rightarrow> int" where
  "spec_entity_share e fetch d =
     (if eligible e d = Inr True
      then (case Name d of None \<Rightarrow> 0
            | Some n \<Rightarrow> sum_list (map record_total (filter spec_qualifying (fetch n))))
      else 0)"

definition spec_run_sum :: "env \<Rightarrow> (string \<Rightarrow> metric list) \<Rightarrow> VO_items list \<Rightarrow> int" where
  "spec_run_sum e fetch VOs = sum_list (map (spec_entity_share e fetch) (registry_entries VOs))"

section \<open>What the registry loops keep\<close>


section \<open>Axes\<close>







section \<open>Results\<close>

subsection \<open>Helper facts\<close>

lemma scan_same: "vo_scan c xs p = period_scan c xs p"
  by (induction xs arbitrary: p) simp_all

lemma process_record_Name: "Name (fst (snd (process_record pos r d st))) = Name d"
  by (simp add: process_record_def Let_def split: option.splits prod.splits)

lemma process_records_Name: "Name (fst (snd (process_records pos rs d st))) = Name d"
proof (induction rs arbitrary: d st)
  case Nil
  show ?case by simp
next
  case (Cons r rs)
  obtain x d1 st1 where p: "process_record pos r d st = (x, d1, st1)"
    by (cases "process_record pos r d st") auto
  have n: "Name d1 = Name d" using process_record_Name [of pos r d st] p by simp
  show ?case
  proof (cases x)
    case None
    then show ?thesis using p n Cons.IH [of d1 st1] by simp
  next
    case (Some a)
    then show ?thesis using p n by simp
  qed
qed

lemma process_record_raise:
  "Name d = Some n \<Longrightarrow> process_record pos r d st = (Some x, d1, st1) \<Longrightarrow> d1 = d \<and> st1 = st"
  by (auto simp add: process_record_def Let_def split: option.splits prod.splits if_splits)

lemma process_records_append:
  "process_records pos (rs @ rest) d st =
     (case process_records pos rs d st of
        (Some x, d1, st1) \<Rightarrow> (Some x, d1, st1)
      | (None, d1, st1) \<Rightarrow> process_records pos rest d1 st1)"
  by (induction rs arbitrary: d st) (auto split: prod.splits option.splits)

lemma process_details_no_raise:
  "eligible e d = Inr b \<Longrightarrow> Name d = Some n \<Longrightarrow> fst (process_details e fetch pos d st) = None"
  by (cases b) (auto simp add: process_details_def Let_def split: prod.splits option.splits exn.splits)

lemma for_each_no_raise:
  "(\<And>x st. x \<in> set xs \<Longrightarrow> fst (body x st) = None) \<Longrightarrow> fst (for_each body xs st) = None"
proof (induction xs arbitrary: st)
  case Nil
  show ?case by simp
next
  case (Cons x xs)
  obtain r x1 st1 where b: "body x st = (r, x1, st1)" by (cases "body x st") auto
  have "r = None" using Cons.prems [of x st] b by simp
  moreover have "fst (for_each body xs st1) = None" using Cons by simp
  ultimately show ?case using b by (auto split: prod.splits)
qed

lemma keys_present_eligible:
  "keys_present d \<Longrightarrow> \<exists>b. eligible e d = Inr b"
  by (auto simp add: keys_present_def eligible_def)

lemma main_no_raise:
  assumes "\<forall>d \<in> set (registry_entries VOs). keys_present d"
  shows "fst (main e fetch VOs ws) = None"
proof -
  have d: "fst (process_details e fetch pos d st) = None"
    if "keys_present d" for d pos st
    using that keys_present_eligible [of d e] process_details_no_raise [of e d _ _ fetch pos st]
    by (auto simp add: keys_present_def)
  have v: "fst (process_vo_details e fetch pos v st) = None"
    if "\<forall>d \<in> set (vo v). keys_present d" for v pos st
    using for_each_no_raise [of "vo v" "process_details e fetch pos" st] that d
    by (auto simp add: process_vo_details_def split: prod.splits)
  have V: "fst (process_VO_items e fetch pos V st) = None"
    if "\<forall>v \<in> set (vos V). \<forall>d \<in> set (vo v). keys_present d" for V pos st
    using for_each_no_raise [of "vos V" "process_vo_details e fetch pos" st] that v
    by (auto simp add: process_VO_items_def split: prod.splits)
  have "fst (for_each (process_VO_items e fetch pos) VOs st) = None" for pos st
    using for_each_no_raise [of VOs "process_VO_items e fetch pos" st] V assms
    by (auto simp add: registry_entries_def)
  then show ?thesis by (simp add: main_def split: prod.splits)
qed

lemma process_record_raises:
  "(fst (process_record pos r d st) \<noteq> None) = record_raises d r"
  by (auto simp add: process_record_def record_raises_def Let_def
      split: option.splits prod.splits)

lemma process_record_step:
  assumes "\<not> record_raises d r" and "process_record pos r d st = (x, d1, st1)"
  shows "x = None \<and> Name d1 = Name d
     \<and> total_cpu st1 = total_cpu st + (if counted r then record_total r else 0)
     \<and> CPU_h d1 = map_option (\<lambda>c. c + (if counted r then record_total r else 0)) (CPU_h d)"
  using assms
  by (auto simp add: process_record_def record_raises_def counted_def record_total_def
      update_GWorkSheet_def Let_def option.map_ident
      split: option.splits prod.splits if_splits)

lemma record_raises_cong:
  "Name d1 = Name d \<Longrightarrow> (CPU_h d1 = None) = (CPU_h d = None) \<Longrightarrow>
   record_raises d1 = record_raises d"
  by (auto simp add: record_raises_def fun_eq_iff split: option.splits)

lemma entity_sum_Nil: "entity_sum d [] = 0"
  by (simp add: entity_sum_def reached_def)

lemma entity_sum_Cons:
  "entity_sum d (r # rs) =
     (if record_raises d r then 0
      else (if counted r then record_total r else 0) + entity_sum d rs)"
  by (simp add: entity_sum_def reached_def)

lemma process_records_sum:
  "Name d = Some n \<Longrightarrow> process_records pos rs d st = (x, d1, st1) \<Longrightarrow>
   total_cpu st1 = total_cpu st + entity_sum d rs
   \<and> CPU_h d1 = map_option (\<lambda>c. c + entity_sum d rs) (CPU_h d)"
proof (induction rs arbitrary: d st)
  case Nil
  then show ?case by (auto simp add: entity_sum_Nil option.map_ident)
next
  case (Cons r rs)
  obtain y d2 st2 where p: "process_record pos r d st = (y, d2, st2)"
    by (cases "process_record pos r d st") auto
  show ?case
  proof (cases "record_raises d r")
    case True
    then have "y \<noteq> None" using process_record_raises [of pos r d st] p by simp
    then obtain a where y: "y = Some a" by auto
    have "d2 = d \<and> st2 = st" using process_record_raise [OF Cons.prems(1)] p y by simp
    then show ?thesis using Cons.prems(2) p y True
      by (auto simp add: entity_sum_Cons option.map_ident)
  next
    case False
    note s = process_record_step [OF False p]
    have c: "(CPU_h d2 = None) = (CPU_h d = None)" using s by (cases "CPU_h d") auto
    have rr: "record_raises d2 = record_raises d"
      using record_raises_cong [of d2 d] s c by simp
    have es: "entity_sum d2 rs = entity_sum d rs"
      by (simp add: entity_sum_def reached_def rr)
    have rest: "process_records pos rs d2 st2 = (x, d1, st1)"
      using Cons.prems(2) p s by simp
    have n2: "Name d2 = Some n" using s Cons.prems(1) by simp
    note ih = Cons.IH [OF n2 rest]
    show ?thesis using ih s es False
      by (cases "CPU_h d") (auto simp add: entity_sum_Cons)
  qed
qed

lemma process_details_sum:
  assumes "process_details e fetch pos d st = (None, d1, st1)"
  shows "total_cpu st1 = total_cpu st + entity_share e fetch d"
proof (cases "eligible e d")
  case (Inl a)
  then show ?thesis using assms by (simp add: process_details_def)
next
  case (Inr b)
  show ?thesis
  proof (cases b)
    case False
    then show ?thesis using assms Inr by (simp add: process_details_def entity_share_def)
  next
    case True
    show ?thesis
    proof (cases "Name d")
      case None
      then show ?thesis using assms Inr True by (simp add: process_details_def)
    next
      case (Some n)
      obtain x d2 st2 where
        p: "process_records pos (fetch n) d (st\<lparr>fetched := fetched st @ [n]\<rparr>) = (x, d2, st2)"
        by (cases "process_records pos (fetch n) d (st\<lparr>fetched := fetched st @ [n]\<rparr>)") auto
      have "total_cpu st2 = total_cpu st + entity_sum d (fetch n)"
        using process_records_sum [OF Some p] by simp
      moreover have "st1 = st2"
        using assms Inr True Some p
        by (cases "fetch n = []")
          (auto simp add: process_details_def Let_def split: option.splits exn.splits)
      ultimately show ?thesis using Inr True Some by (simp add: entity_share_def)
    qed
  qed
qed

lemma for_each_sum:
  assumes "\<And>x st x1 st1. body x st = (None, x1, st1) \<Longrightarrow> f st1 = f st + g x"
  shows "for_each body xs st = (None, xs1, st1) \<Longrightarrow> f st1 = f st + sum_list (map g xs)"
proof (induction xs arbitrary: st xs1)
  case Nil
  then show ?case by simp
next
  case (Cons x xs)
  obtain r x2 st2 where b: "body x st = (r, x2, st2)" by (cases "body x st") auto
  have r: "r = None" using Cons.prems b by (cases r) auto
  obtain r3 xs3 st3 where l: "for_each body xs st2 = (r3, xs3, st3)"
    by (cases "for_each body xs st2") auto
  have "r3 = None \<and> st3 = st1" using Cons.prems b r l by simp
  then have "f st1 = f st2 + sum_list (map g xs)" using Cons.IH l by simp
  moreover have "f st2 = f st + g x" using assms b r by simp
  ultimately show ?case by (simp add: add.assoc)
qed

lemma main_sum:
  assumes "fst (main e fetch VOs ws) = None"
  shows "total_cpu (snd (snd (main e fetch VOs ws))) = run_sum e fetch VOs"
proof -
  let ?gd = "entity_share e fetch"
  let ?gv = "\<lambda>v. sum_list (map ?gd (vo v))"
  let ?gV = "\<lambda>V. sum_list (map ?gv (vos V))"
  have v: "total_cpu st1 = total_cpu st + ?gv v"
    if "process_vo_details e fetch pos v st = (None, v1, st1)" for pos v st v1 st1
    using that
      for_each_sum [of "process_details e fetch pos" total_cpu ?gd "vo v" st _ st1]
      process_details_sum [of e fetch pos]
    by (auto simp add: process_vo_details_def split: prod.splits)
  have V: "total_cpu st1 = total_cpu st + ?gV V"
    if "process_VO_items e fetch pos V st = (None, V1, st1)" for pos V st V1 st1
    using that
      for_each_sum [of "process_vo_details e fetch pos" total_cpu ?gv "vos V" st _ st1] v
    by (auto simp add: process_VO_items_def split: prod.splits)
  have all: "total_cpu st1 = total_cpu st + sum_list (map ?gV VOs)"
    if "for_each (process_VO_items e fetch pos) VOs st = (None, Vs, st1)" for pos st Vs st1
    using that for_each_sum [of "process_VO_items e fetch pos" total_cpu ?gV VOs st Vs st1] V
    by blast
  have flat: "sum_list (map ?gV VOs) = run_sum e fetch VOs"
  proof -
    have "sum_list (map ?gd (concat (map vo vs))) = sum_list (map ?gv vs)" for vs
      by (induction vs) simp_all
    then have "sum_list (map ?gd (concat (map vo (concat (map vos VOs)))))
                 = sum_list (map ?gv (concat (map vos VOs)))"
      by blast
    also have "\<dots> = sum_list (map ?gV VOs)"
      by (induction VOs) simp_all
    finally show ?thesis by (simp add: run_sum_def registry_entries_def)
  qed
  obtain ws1 pos where lp: "locate_period ws (accounting_period e) = (ws1, pos)"
    by (cases "locate_period ws (accounting_period e)") auto
  obtain r Vs st1 where m: "main e fetch VOs ws = (r, Vs, st1)"
    by (cases "main e fetch VOs ws") auto
  have "r = None" using assms m by simp
  then have "total_cpu st1 = 0 + sum_list (map ?gV VOs)"
    using m lp
      all [of pos "\<lparr>sheet = ws1, total_cpu = 0, fetched = [], written = []\<rparr>" Vs st1]
    by (simp add: main_def)
  then show ?thesis using m flat by simp
qed

lemma process_details_entity_sum:
  assumes "eligible e d = Inr True" and "Name d = Some n"
  shows "CPU_h (fst (snd (process_details e fetch pos d st)))
           = map_option (\<lambda>c. c + entity_sum d (fetch n)) (CPU_h d)
     \<and> total_cpu (snd (snd (process_details e fetch pos d st)))
           = total_cpu st + entity_sum d (fetch n)"
proof -
  obtain x d2 st2 where
    p: "process_records pos (fetch n) d (st\<lparr>fetched := fetched st @ [n]\<rparr>) = (x, d2, st2)"
    by (cases "process_records pos (fetch n) d (st\<lparr>fetched := fetched st @ [n]\<rparr>)") auto
  note s = process_records_sum [OF assms(2) p]
  have "snd (process_details e fetch pos d st) = (d2, st2)"
    using assms p
    by (cases "fetch n = []")
      (auto simp add: process_details_def Let_def split: option.splits exn.splits)
  then show ?thesis using s by simp
qed





































subsection \<open>Claims\<close>

text \<open>
  C10. A value list with no label or one label (the header alone) gives the base position
  2 and \<open>found = False\<close>, on the row axis and on the column axis.
\<close>

theorem short_axis_base_position:
  "(length (col_values ws 1) \<le> 1 \<longrightarrow> get_GWorkSheetCellPosition ws p = (2, False))
   \<and> (length (row_values ws 1) \<le> 1 \<longrightarrow>
        vo_locate ws v = (2, False) \<and> get_vo_cell ws v = (insert_cols ws v 2, 2))"
  by (simp add: get_GWorkSheetCellPosition_def vo_locate_def get_vo_cell_def)

theorem short_axis_base_position_witness:
  "length (col_values [[''Period'']] 1) \<le> 1
   \<and> get_GWorkSheetCellPosition [[''Period'']] ''2024.01-03'' = (2, False)
   \<and> length (row_values [[''Period'']] 1) \<le> 1
   \<and> vo_locate [[''Period'']] ''alice'' = (2, False)
   \<and> get_vo_cell [[''Period'']] ''alice'' = ([[''Period'', ''alice'']], 2)"
  using short_axis_base_position [of "[[''Period'']]" "''2024.01-03''" "''alice''"]
  by (simp add: col_values_def row_values_def insert_cols_def insert_at_def pad_def)

text \<open>
  C9. For dates written with a four-character year first and a two-character month last
  (as in \<open>2024/01\<close>), the label of the reporting period is the year and the month of
  \<open>DATE_FROM\<close> and the month of \<open>DATE_TO\<close>, in the form \<open>YYYY.MM-MM\<close>. The label is a
  function of the two dates alone.
\<close>

theorem period_label_form:
  "length y = 4 \<Longrightarrow> length m = 2 \<Longrightarrow> length m' = 2 \<Longrightarrow>
   DATE_FROM e = y @ sep @ m \<Longrightarrow> DATE_TO e = y' @ sep' @ m' \<Longrightarrow>
   accounting_period e = y @ ''.'' @ m @ ''-'' @ m' \<and> length (accounting_period e) = 10"
  by (simp add: accounting_period_def)

theorem period_label_form_witness:
  "accounting_period \<lparr>ACCOUNTING_SCOPE = ''htc'', DATE_FROM = ''2024/01'', DATE_TO = ''2024/03''\<rparr>
     = ''2024.01-03''"
  using period_label_form [of "''2024''" "''01''" "''03''"
     "\<lparr>ACCOUNTING_SCOPE = ''htc'', DATE_FROM = ''2024/01'', DATE_TO = ''2024/03''\<rparr>"
     "''/''" "''2024''" "''/''"]
  by simp

text \<open>
  C1, as stated, fails: a record whose id contains both \<open>Total\<close> and \<open>Percent\<close> is
  counted. Line 218 tests \<open>"Total" in record['id']\<close> alone; \<open>Percent\<close> is tested only
  at line 216, for the lines printed per provider. Here such a record adds its 50 to the
  counter of the entry and to \<open>total_cpu\<close>.
\<close>

theorem percent_total_record_counterexample:
  "contains ''Total'' ''UK-Total-Percent'' \<and> contains ''Percent'' ''UK-Total-Percent''
   \<and> fst (process_record 2 \<lparr>rec_id = Some ''UK-Total-Percent'', rec_Total = Some 50\<rparr>
        \<lparr>Name = Some ''ALPHA'', Type = Some ''htc'', Active = Some ''Y'',
         SLA_start = Some ''2023/01'', SLA_end = Some ''2025/12'', CPU_h = Some 100\<rparr>
        \<lparr>sheet = [[''Period'', ''ALPHA''], [''2024.01-03'', ''0'']], total_cpu = 100,
         fetched = [''ALPHA''], written = []\<rparr>) = None
   \<and> CPU_h (fst (snd (process_record 2
        \<lparr>rec_id = Some ''UK-Total-Percent'', rec_Total = Some 50\<rparr>
        \<lparr>Name = Some ''ALPHA'', Type = Some ''htc'', Active = Some ''Y'',
         SLA_start = Some ''2023/01'', SLA_end = Some ''2025/12'', CPU_h = Some 100\<rparr>
        \<lparr>sheet = [[''Period'', ''ALPHA''], [''2024.01-03'', ''0'']], total_cpu = 100,
         fetched = [''ALPHA''], written = []\<rparr>))) = Some 150
   \<and> total_cpu (snd (snd (process_record 2
        \<lparr>rec_id = Some ''UK-Total-Percent'', rec_Total = Some 50\<rparr>
        \<lparr>Name = Some ''ALPHA'', Type = Some ''htc'', Active = Some ''Y'',
         SLA_start = Some ''2023/01'', SLA_end = Some ''2025/12'', CPU_h = Some 100\<rparr>
        \<lparr>sheet = [[''Period'', ''ALPHA''], [''2024.01-03'', ''0'']], total_cpu = 100,
         fetched = [''ALPHA''], written = []\<rparr>))) = 150"
  by (simp add: process_record_def update_GWorkSheet_def split: prod.splits)

text \<open>
  C1, amended. The marker \<open>Total\<close> alone decides: a record whose id contains \<open>Total\<close>
  (and that has its \<open>Total\<close> value, for an entry that has its name and its counter) adds
  that value to the counter of the entry and to \<open>total_cpu\<close>, whether or not the id also
  contains \<open>Percent\<close>; a record whose id does not contain \<open>Total\<close> changes neither the
  entry nor the state.
\<close>

theorem total_marker_alone_decides:
  "(rec_id r = Some i \<and> contains ''Total'' i \<and> rec_Total r = Some t \<and> CPU_h d = Some c
      \<and> Name d = Some n \<longrightarrow>
      fst (process_record pos r d st) = None
      \<and> CPU_h (fst (snd (process_record pos r d st))) = Some (c + t)
      \<and> total_cpu (snd (snd (process_record pos r d st))) = total_cpu st + t)
   \<and> ((\<forall>i. rec_id r = Some i \<longrightarrow> \<not> contains ''Total'' i) \<longrightarrow>
      snd (process_record pos r d st) = (d, st))"
  by (auto simp add: process_record_def update_GWorkSheet_def Let_def
      split: option.splits prod.splits)

theorem total_marker_alone_decides_witness:
  "total_cpu (snd (snd (process_record 2 \<lparr>rec_id = Some ''ALPHA-Total'', rec_Total = Some 300\<rparr>
        \<lparr>Name = Some ''ALPHA'', Type = Some ''htc'', Active = Some ''Y'',
         SLA_start = Some ''2023/01'', SLA_end = Some ''2025/12'', CPU_h = Some 0\<rparr>
        \<lparr>sheet = [[''Period'']], total_cpu = 0, fetched = [], written = []\<rparr>))) = 300
   \<and> snd (process_record 2 \<lparr>rec_id = Some ''ALPHA-site1'', rec_Total = Some 40\<rparr>
        \<lparr>Name = Some ''ALPHA'', Type = Some ''htc'', Active = Some ''Y'',
         SLA_start = Some ''2023/01'', SLA_end = Some ''2025/12'', CPU_h = Some 0\<rparr>
        \<lparr>sheet = [[''Period'']], total_cpu = 0, fetched = [], written = []\<rparr>)
     = (\<lparr>Name = Some ''ALPHA'', Type = Some ''htc'', Active = Some ''Y'',
         SLA_start = Some ''2023/01'', SLA_end = Some ''2025/12'', CPU_h = Some 0\<rparr>,
        \<lparr>sheet = [[''Period'']], total_cpu = 0, fetched = [], written = []\<rparr>)"
  using total_marker_alone_decides [of
      "\<lparr>rec_id = Some ''ALPHA-Total'', rec_Total = Some 300\<rparr>" "''ALPHA-Total''" 300
      "\<lparr>Name = Some ''ALPHA'', Type = Some ''htc'', Active = Some ''Y'',
         SLA_start = Some ''2023/01'', SLA_end = Some ''2025/12'', CPU_h = Some 0\<rparr>" 0 "''ALPHA''"
      2 "\<lparr>sheet = [[''Period'']], total_cpu = 0, fetched = [], written = []\<rparr>"]
    total_marker_alone_decides [of
      "\<lparr>rec_id = Some ''ALPHA-site1'', rec_Total = Some 40\<rparr>" "''ALPHA-site1''" 40
      "\<lparr>Name = Some ''ALPHA'', Type = Some ''htc'', Active = Some ''Y'',
         SLA_start = Some ''2023/01'', SLA_end = Some ''2025/12'', CPU_h = Some 0\<rparr>" 0 "''ALPHA''"
      2 "\<lparr>sheet = [[''Period'']], total_cpu = 0, fetched = [], written = []\<rparr>"]
  by simp

text \<open>
  C2, as stated, fails: the loop of \<open>get_vo_cell\<close> has the same test
  \<open>"Period" not in header\<close> (line 96) as the loop of the row axis. On the value list
  \<open>Period, ALPHA\<close> and the candidate \<open>ZETA\<close> the header cell is skipped and the
  position is 3; a scan in which every non-empty label takes part in the comparisons
  counts the header cell too and gives 4.
\<close>

theorem column_scan_counterexample:
  "vo_scan ''ZETA'' [''Period'', ''ALPHA''] 2 = (3, False)
   \<and> vo_scan_every_label ''ZETA'' [''Period'', ''ALPHA''] 2 = (4, False)"
  by simp

text \<open>
  C2, amended. The scan of the column axis is the scan of the row axis: it skips every
  label that contains \<open>Period\<close>, so that removing those labels from the value list does
  not change its result, and it stops with \<open>found = True\<close> at an empty label. Only the
  labels that do not contain \<open>Period\<close> take part in the comparisons.
\<close>

theorem column_scan_skips_marker:
  "vo_scan c xs p = period_scan c xs p
   \<and> vo_scan c (filter (\<lambda>h. \<not> contains ''Period'' h) xs) p = vo_scan c xs p
   \<and> vo_scan c ([] # xs) p = (p, True)"
proof -
  have "vo_scan c (filter (\<lambda>h. \<not> contains ''Period'' h) xs) p = vo_scan c xs p"
    by (induction xs arbitrary: p) simp_all
  then show ?thesis by (simp add: scan_same)
qed

theorem column_scan_skips_marker_witness:
  "vo_scan ''ZETA'' [''ALPHA''] 2 = vo_scan ''ZETA'' [''Period'', ''ALPHA''] 2
   \<and> vo_scan ''ZETA'' [''Period'', ''ALPHA''] 2 = period_scan ''ZETA'' [''Period'', ''ALPHA''] 2"
  using column_scan_skips_marker [of "''ZETA''" "[''Period'', ''ALPHA'']" 2]
  by simp

text \<open>
  C5. The four checks are made in the order type, start of validity, end of validity,
  active flag, and a check that fails ends the evaluation: a key that a later check would
  read is not read (so that its absence raises nothing), while a missing key of the
  check that is reached raises \<open>KeyError\<close>. The type check is \<open>scope in Type\<close>. An
  entry that fails a check leaves the entry and the whole state as they were: no name
  is fetched, the worksheet is not touched, nothing is written.
\<close>

theorem eligibility_order_short_circuit:
  "(Type d = None \<longrightarrow> eligible e d = Inl (KeyError ''Type''))
   \<and> (Type d = Some ty \<and> \<not> contains (ACCOUNTING_SCOPE e) ty \<longrightarrow> eligible e d = Inr False)
   \<and> (Type d = Some ty \<and> contains (ACCOUNTING_SCOPE e) ty \<and> SLA_start d = None \<longrightarrow>
        eligible e d = Inl (KeyError ''SLA_start''))
   \<and> (Type d = Some ty \<and> contains (ACCOUNTING_SCOPE e) ty \<and> SLA_start d = Some s
        \<and> \<not> DATE_FROM e \<ge> s \<longrightarrow> eligible e d = Inr False)
   \<and> (Type d = Some ty \<and> contains (ACCOUNTING_SCOPE e) ty \<and> SLA_start d = Some s
        \<and> DATE_FROM e \<ge> s \<and> SLA_end d = None \<longrightarrow> eligible e d = Inl (KeyError ''SLA_end''))
   \<and> (Type d = Some ty \<and> contains (ACCOUNTING_SCOPE e) ty \<and> SLA_start d = Some s
        \<and> DATE_FROM e \<ge> s \<and> SLA_end d = Some t \<and> \<not> DATE_TO e \<le> t \<longrightarrow>
        eligible e d = Inr False)
   \<and> (Type d = Some ty \<and> contains (ACCOUNTING_SCOPE e) ty \<and> SLA_start d = Some s
        \<and> DATE_FROM e \<ge> s \<and> SLA_end d = Some t \<and> DATE_TO e \<le> t \<and> Active d = None \<longrightarrow>
        eligible e d = Inl (KeyError ''Active''))
   \<and> (Type d = Some ty \<and> contains (ACCOUNTING_SCOPE e) ty \<and> SLA_start d = Some s
        \<and> DATE_FROM e \<ge> s \<and> SLA_end d = Some t \<and> DATE_TO e \<le> t \<and> Active d = Some a \<longrightarrow>
        eligible e d = Inr (a = ''Y''))
   \<and> (eligible e d = Inr False \<longrightarrow> process_details e fetch pos d st = (None, d, st))"
  by (simp add: eligible_def process_details_def)

text \<open>
  C6. For an eligible entry the body of the loop never ends with an exception. When a
  record raises \<open>KeyError\<close> after the records \<open>rs\<close> before it were processed, the
  entry and the state are the ones those records left: the failing record has changed
  nothing and the records after it are not processed. The loop then goes on with the
  next entry. A run over a registry whose entries have the keys that are read outside
  of the \<open>try\<close> block ends without an exception, whatever the fetched records are.
\<close>

theorem key_error_is_entity_local:
  "(eligible e d = Inr True \<and> Name d = Some n \<longrightarrow>
      fst (process_details e fetch pos d st) = None
      \<and> (fetch n = rs @ r # rest
          \<and> process_records pos rs d (st\<lparr>fetched := fetched st @ [n]\<rparr>) = (None, d1, st1)
          \<and> fst (process_record pos r d1 st1) \<noteq> None \<longrightarrow>
          process_details e fetch pos d st = (None, d1, st1))
      \<and> for_each (process_details e fetch pos) (d # ds) st =
          (case process_details e fetch pos d st of
             (x, d2, st2) \<Rightarrow>
               (case for_each (process_details e fetch pos) ds st2 of
                  (y, ds1, st3) \<Rightarrow> (y, d2 # ds1, st3))))
   \<and> ((\<forall>d \<in> set (registry_entries VOs). keys_present d) \<longrightarrow>
        fst (main e fetch VOs ws) = None)"
proof -
  have a: "fst (process_details e fetch pos d st) = None"
    if "eligible e d = Inr True" "Name d = Some n"
    using that by (rule process_details_no_raise)
  have b: "process_details e fetch pos d st = (None, d1, st1)"
    if el: "eligible e d = Inr True" and nm: "Name d = Some n"
      and f: "fetch n = rs @ r # rest"
      and p: "process_records pos rs d (st\<lparr>fetched := fetched st @ [n]\<rparr>) = (None, d1, st1)"
      and q: "fst (process_record pos r d1 st1) \<noteq> None"
  proof -
    have n1: "Name d1 = Some n"
      using process_records_Name [of pos rs d "st\<lparr>fetched := fetched st @ [n]\<rparr>"] p nm by simp
    obtain x d2 st2 where pr: "process_record pos r d1 st1 = (Some x, d2, st2)"
      using q by (cases "process_record pos r d1 st1") auto
    have same: "d2 = d1 \<and> st2 = st1" using process_record_raise [OF n1 pr] .
    have "process_records pos (rs @ r # rest) d (st\<lparr>fetched := fetched st @ [n]\<rparr>)
            = (Some x, d1, st1)"
      using p pr same by (simp add: process_records_append)
    then show ?thesis
      using el nm f by (cases x) (simp add: process_details_def Let_def)
  qed
  have c: "for_each (process_details e fetch pos) (d # ds) st =
          (case process_details e fetch pos d st of
             (x, d2, st2) \<Rightarrow>
               (case for_each (process_details e fetch pos) ds st2 of
                  (y, ds1, st3) \<Rightarrow> (y, d2 # ds1, st3)))"
    if "eligible e d = Inr True" "Name d = Some n"
    using a [OF that] by (auto split: prod.splits option.splits)
  show ?thesis using a b c main_no_raise by blast
qed

theorem eligibility_order_short_circuit_witness:
  "eligible \<lparr>ACCOUNTING_SCOPE = ''htc'', DATE_FROM = ''2024/01'', DATE_TO = ''2024/03''\<rparr>
     \<lparr>Name = None, Type = Some ''cloud'', Active = None, SLA_start = None, SLA_end = None,
      CPU_h = None\<rparr> = Inr False
   \<and> process_details \<lparr>ACCOUNTING_SCOPE = ''htc'', DATE_FROM = ''2024/01'', DATE_TO = ''2024/03''\<rparr>
       (\<lambda>n. [\<lparr>rec_id = Some ''Total'', rec_Total = Some 7\<rparr>]) 2
       \<lparr>Name = None, Type = Some ''cloud'', Active = None, SLA_start = None, SLA_end = None,
        CPU_h = None\<rparr>
       \<lparr>sheet = [[''Period'']], total_cpu = 0, fetched = [], written = []\<rparr>
     = (None,
        \<lparr>Name = None, Type = Some ''cloud'', Active = None, SLA_start = None, SLA_end = None,
         CPU_h = None\<rparr>,
        \<lparr>sheet = [[''Period'']], total_cpu = 0, fetched = [], written = []\<rparr>)
   \<and> eligible \<lparr>ACCOUNTING_SCOPE = ''htc'', DATE_FROM = ''2024/01'', DATE_TO = ''2024/03''\<rparr>
     \<lparr>Name = Some ''ALPHA'', Type = Some ''htc'', Active = Some ''Y'',
      SLA_start = Some ''2023/01'', SLA_end = Some ''2025/12'', CPU_h = Some 0\<rparr> = Inr True"
  using eligibility_order_short_circuit [where
      e = "\<lparr>ACCOUNTING_SCOPE = ''htc'', DATE_FROM = ''2024/01'', DATE_TO = ''2024/03''\<rparr>"
      and d = "\<lparr>Name = None, Type = Some ''cloud'', Active = None, SLA_start = None,
                SLA_end = None, CPU_h = None\<rparr>"
      and ty = "''cloud''"
      and fetch = "\<lambda>n. [\<lparr>rec_id = Some ''Total'', rec_Total = Some 7\<rparr>]" and pos = 2
      and st = "\<lparr>sheet = [[''Period'']], total_cpu = 0, fetched = [], written = []\<rparr>"]
    eligibility_order_short_circuit [where
      e = "\<lparr>ACCOUNTING_SCOPE = ''htc'', DATE_FROM = ''2024/01'', DATE_TO = ''2024/03''\<rparr>"
      and d = "\<lparr>Name = Some ''ALPHA'', Type = Some ''htc'', Active = Some ''Y'',
                SLA_start = Some ''2023/01'', SLA_end = Some ''2025/12'', CPU_h = Some 0\<rparr>"
      and ty = "''htc''" and s = "''2023/01''" and t = "''2025/12''" and a = "''Y''"]
  by simp

theorem key_error_is_entity_local_witness:
  "process_details \<lparr>ACCOUNTING_SCOPE = ''htc'', DATE_FROM = ''2024/01'', DATE_TO = ''2024/03''\<rparr>
       (\<lambda>n. [\<lparr>rec_id = Some ''ALPHA-Total'', rec_Total = Some 300\<rparr>,
              \<lparr>rec_id = None, rec_Total = Some 1\<rparr>,
              \<lparr>rec_id = Some ''Total'', rec_Total = Some 5\<rparr>]) 2
       \<lparr>Name = Some ''ALPHA'', Type = Some ''htc'', Active = Some ''Y'',
        SLA_start = Some ''2023/01'', SLA_end = Some ''2025/12'', CPU_h = Some 0\<rparr>
       \<lparr>sheet = [[''Period'']], total_cpu = 0, fetched = [], written = []\<rparr>
     = (None,
        snd (process_records 2 [\<lparr>rec_id = Some ''ALPHA-Total'', rec_Total = Some 300\<rparr>]
          \<lparr>Name = Some ''ALPHA'', Type = Some ''htc'', Active = Some ''Y'',
           SLA_start = Some ''2023/01'', SLA_end = Some ''2025/12'', CPU_h = Some 0\<rparr>
          \<lparr>sheet = [[''Period'']], total_cpu = 0, fetched = [''ALPHA''], written = []\<rparr>))
   \<and> fst (main \<lparr>ACCOUNTING_SCOPE = ''htc'', DATE_FROM = ''2024/01'', DATE_TO = ''2024/03''\<rparr>
       (\<lambda>n. [\<lparr>rec_id = None, rec_Total = None\<rparr>])
       [\<lparr>vos = [\<lparr>vo = [\<lparr>Name = Some ''ALPHA'', Type = Some ''htc'', Active = Some ''Y'',
          SLA_start = Some ''2023/01'', SLA_end = Some ''2025/12'', CPU_h = Some 0\<rparr>]\<rparr>]\<rparr>]
       [[''Period'']]) = None"
proof -
  let ?e = "\<lparr>ACCOUNTING_SCOPE = ''htc'', DATE_FROM = ''2024/01'', DATE_TO = ''2024/03''\<rparr>"
  let ?d = "\<lparr>Name = Some ''ALPHA'', Type = Some ''htc'', Active = Some ''Y'',
        SLA_start = Some ''2023/01'', SLA_end = Some ''2025/12'', CPU_h = Some 0\<rparr>"
  let ?r1 = "\<lparr>rec_id = Some ''ALPHA-Total'', rec_Total = Some 300\<rparr>"
  let ?r2 = "\<lparr>rec_id = None, rec_Total = Some 1\<rparr>"
  let ?r3 = "\<lparr>rec_id = Some ''Total'', rec_Total = Some 5\<rparr>"
  let ?st = "\<lparr>sheet = [[''Period'']], total_cpu = 0, fetched = [], written = []\<rparr>"
  let ?st' = "\<lparr>sheet = [[''Period'']], total_cpu = 0, fetched = [''ALPHA''], written = []\<rparr>"
  let ?p = "process_records 2 [?r1] ?d ?st'"
  have el: "eligible ?e ?d = Inr True" by (simp add: eligible_def)
  have f: "fst ?p = None"
    by (simp add: process_record_def update_GWorkSheet_def split: prod.splits)
  have p: "process_records 2 [?r1] ?d (?st\<lparr>fetched := fetched ?st @ [''ALPHA'']\<rparr>)
             = (None, fst (snd ?p), snd (snd ?p))"
    using f by (simp add: prod_eq_iff)
  have q: "fst (process_record 2 ?r2 (fst (snd ?p)) (snd (snd ?p))) \<noteq> None"
    by (simp add: process_record_def)
  have k: "\<forall>d \<in> set (registry_entries [\<lparr>vos = [\<lparr>vo = [?d]\<rparr>]\<rparr>]). keys_present d"
    by (simp add: registry_entries_def keys_present_def)
  show ?thesis
    using key_error_is_entity_local [where e = ?e and d = ?d and n = "''ALPHA''"
        and fetch = "\<lambda>n. [?r1, ?r2, ?r3]" and pos = 2 and st = ?st and rs = "[?r1]"
        and r = ?r2 and rest = "[?r3]" and ?d1.0 = "fst (snd ?p)" and ?st1.0 = "snd (snd ?p)"]
      key_error_is_entity_local [where e = ?e and d = ?d
        and fetch = "\<lambda>n. [\<lparr>rec_id = None, rec_Total = None\<rparr>]"
        and VOs = "[\<lparr>vos = [\<lparr>vo = [?d]\<rparr>]\<rparr>]" and ws = "[[''Period'']]"]
      el p q k
    by simp
qed

text \<open>
  C7, as stated, fails in its last part: the total of a run is not the sum of the
  \<open>Total\<close> values of all qualifying records. On the records \<open>Total\<close> (100) and
  \<open>UK-Total-Percent\<close> (50) of section 8 of the specification the run ends with 150,
  since line 218 does not look at \<open>Percent\<close>, where the qualifying records sum to 100.
  On a provider record without \<open>Total\<close> followed by the record \<open>Total\<close> (5) the run ends
  with 0, since the \<open>KeyError\<close> of the first record ends the loop of the entry, where
  the qualifying records sum to 5. Both runs reach the report.
\<close>

theorem run_total_counterexample:
  "fst (main \<lparr>ACCOUNTING_SCOPE = ''htc'', DATE_FROM = ''2024/01'', DATE_TO = ''2024/03''\<rparr>
       (\<lambda>n. [\<lparr>rec_id = Some ''Total'', rec_Total = Some 100\<rparr>,
              \<lparr>rec_id = Some ''UK-Total-Percent'', rec_Total = Some 50\<rparr>])
       [\<lparr>vos = [\<lparr>vo = [\<lparr>Name = Some ''ALPHA'', Type = Some ''htc'', Active = Some ''Y'',
          SLA_start = Some ''2023/01'', SLA_end = Some ''2025/12'', CPU_h = Some 0\<rparr>]\<rparr>]\<rparr>]
       [[''Period'']]) = None
   \<and> total_cpu (snd (snd (main
       \<lparr>ACCOUNTING_SCOPE = ''htc'', DATE_FROM = ''2024/01'', DATE_TO = ''2024/03''\<rparr>
       (\<lambda>n. [\<lparr>rec_id = Some ''Total'', rec_Total = Some 100\<rparr>,
              \<lparr>rec_id = Some ''UK-Total-Percent'', rec_Total = Some 50\<rparr>])
       [\<lparr>vos = [\<lparr>vo = [\<lparr>Name = Some ''ALPHA'', Type = Some ''htc'', Active = Some ''Y'',
          SLA_start = Some ''2023/01'', SLA_end = Some ''2025/12'', CPU_h = Some 0\<rparr>]\<rparr>]\<rparr>]
       [[''Period'']]))) = 150
   \<and> spec_run_sum \<lparr>ACCOUNTING_SCOPE = ''htc'', DATE_FROM = ''2024/01'', DATE_TO = ''2024/03''\<rparr>
       (\<lambda>n. [\<lparr>rec_id = Some ''Total'', rec_Total = Some 100\<rparr>,
              \<lparr>rec_id = Some ''UK-Total-Percent'', rec_Total = Some 50\<rparr>])
       [\<lparr>vos = [\<lparr>vo = [\<lparr>Name = Some ''ALPHA'', Type = Some ''htc'', Active = Some ''Y'',
          SLA_start = Some ''2023/01'', SLA_end = Some ''2025/12'', CPU_h = Some 0\<rparr>]\<rparr>]\<rparr>] = 100
   \<and> fst (main \<lparr>ACCOUNTING_SCOPE = ''htc'', DATE_FROM = ''2024/01'', DATE_TO = ''2024/03''\<rparr>
       (\<lambda>n. [\<lparr>rec_id = Some ''ALPHA-site1'', rec_Total = None\<rparr>,
              \<lparr>rec_id = Some ''Total'', rec_Total = Some 5\<rparr>])
       [\<lparr>vos = [\<lparr>vo = [\<lparr>Name = Some ''ALPHA'', Type = Some ''htc'', Active = Some ''Y'',
          SLA_start = Some ''2023/01'', SLA_end = Some ''2025/12'', CPU_h = Some 0\<rparr>]\<rparr>]\<rparr>]
       [[''Period'']]) = None
   \<and> total_cpu (snd (snd (main
       \<lparr>ACCOUNTING_SCOPE = ''htc'', DATE_FROM = ''2024/01'', DATE_TO = ''2024/03''\<rparr>
       (\<lambda>n. [\<lparr>rec_id = Some ''ALPHA-site1'', rec_Total = None\<rparr>,
              \<lparr>rec_id = Some ''Total'', rec_Total = Some 5\<rparr>])
       [\<lparr>vos = [\<lparr>vo = [\<lparr>Name = Some ''ALPHA'', Type = Some ''htc'', Active = Some ''Y'',
          SLA_start = Some ''2023/01'', SLA_end = Some ''2025/12'', CPU_h = Some 0\<rparr>]\<rparr>]\<rparr>]
       [[''Period'']]))) = 0
   \<and> spec_run_sum \<lparr>ACCOUNTING_SCOPE = ''htc'', DATE_FROM = ''2024/01'', DATE_TO = ''2024/03''\<rparr>
       (\<lambda>n. [\<lparr>rec_id = Some ''ALPHA-site1'', rec_Total = None\<rparr>,
              \<lparr>rec_id = Some ''Total'', rec_Total = Some 5\<rparr>])
       [\<lparr>vos = [\<lparr>vo = [\<lparr>Name = Some ''ALPHA'', Type = Some ''htc'', Active = Some ''Y'',
          SLA_start = Some ''2023/01'', SLA_end = Some ''2025/12'', CPU_h = Some 0\<rparr>]\<rparr>]\<rparr>] = 5"
proof -
  let ?e = "\<lparr>ACCOUNTING_SCOPE = ''htc'', DATE_FROM = ''2024/01'', DATE_TO = ''2024/03''\<rparr>"
  let ?d = "\<lparr>Name = Some ''ALPHA'', Type = Some ''htc'', Active = Some ''Y'',
        SLA_start = Some ''2023/01'', SLA_end = Some ''2025/12'', CPU_h = Some 0\<rparr>"
  let ?f = "\<lambda>n::string. [\<lparr>rec_id = Some ''Total'', rec_Total = Some 100\<rparr>,
              \<lparr>rec_id = Some ''UK-Total-Percent'', rec_Total = Some 50\<rparr>]"
  let ?g = "\<lambda>n::string. [\<lparr>rec_id = Some ''ALPHA-site1'', rec_Total = None\<rparr>,
              \<lparr>rec_id = Some ''Total'', rec_Total = Some 5\<rparr>]"
  let ?V = "[\<lparr>vos = [\<lparr>vo = [?d]\<rparr>]\<rparr>]"
  have k: "\<forall>d \<in> set (registry_entries ?V). keys_present d"
    by (simp add: registry_entries_def keys_present_def)
  have nf: "fst (main ?e ?f ?V [[''Period'']]) = None"
    using main_no_raise [OF k] .
  have ng: "fst (main ?e ?g ?V [[''Period'']]) = None"
    using main_no_raise [OF k] .
  have rf: "run_sum ?e ?f ?V = 150"
    by (simp add: run_sum_def registry_entries_def entity_share_def eligible_def
        entity_sum_def reached_def record_raises_def counted_def record_total_def)
  have rg: "run_sum ?e ?g ?V = 0"
    by (simp add: run_sum_def registry_entries_def entity_share_def eligible_def
        entity_sum_def reached_def record_raises_def counted_def record_total_def)
  have sf: "spec_run_sum ?e ?f ?V = 100"
    by (simp add: spec_run_sum_def registry_entries_def spec_entity_share_def eligible_def
        spec_qualifying_def record_total_def)
  have sg: "spec_run_sum ?e ?g ?V = 5"
    by (simp add: spec_run_sum_def registry_entries_def spec_entity_share_def eligible_def
        spec_qualifying_def record_total_def)
  show ?thesis
    using nf ng main_sum [OF nf] main_sum [OF ng] rf rg sf sg by simp
qed

text \<open>
  C7, amended. A record that passes the test of line 218 (its id contains \<open>Total\<close>,
  with or without \<open>Percent\<close>) adds exactly its \<open>Total\<close> to the counter of the entry and
  to \<open>total_cpu\<close>, in integer arithmetic without bounds. For an eligible entry both grow
  by the sum of the \<open>Total\<close> values of the counted records among the reached ones, the
  records before the first one that raises \<open>KeyError\<close>; these are all the fetched records
  when none of them raises. When the run reaches the report, \<open>total_cpu\<close> is the sum of
  these sums over the eligible entries of the registry.
\<close>

theorem totals_are_exact_sums:
  "(rec_id r = Some i \<and> contains ''Total'' i \<and> rec_Total r = Some t \<and> CPU_h d = Some c
      \<and> Name d = Some n \<longrightarrow>
      CPU_h (fst (snd (process_record pos r d st))) = Some (c + t)
      \<and> total_cpu (snd (snd (process_record pos r d st))) = total_cpu st + t)
   \<and> (eligible e d = Inr True \<and> Name d = Some n \<and> CPU_h d = Some c \<longrightarrow>
      CPU_h (fst (snd (process_details e fetch pos d st))) = Some (c + entity_sum d (fetch n))
      \<and> total_cpu (snd (snd (process_details e fetch pos d st)))
          = total_cpu st + entity_sum d (fetch n))
   \<and> ((\<forall>r \<in> set data. \<not> record_raises d r) \<longrightarrow>
      entity_sum d data = sum_list (map record_total (filter counted data)))
   \<and> (fst (main e fetch VOs ws) = None \<longrightarrow>
      total_cpu (snd (snd (main e fetch VOs ws))) = run_sum e fetch VOs)"
proof -
  have a: "CPU_h (fst (snd (process_record pos r d st))) = Some (c + t)
      \<and> total_cpu (snd (snd (process_record pos r d st))) = total_cpu st + t"
    if "rec_id r = Some i" "contains ''Total'' i" "rec_Total r = Some t" "CPU_h d = Some c"
      "Name d = Some n"
    using that
    by (simp add: process_record_def update_GWorkSheet_def Let_def split: prod.splits)
  have b: "CPU_h (fst (snd (process_details e fetch pos d st))) = Some (c + entity_sum d (fetch n))
      \<and> total_cpu (snd (snd (process_details e fetch pos d st)))
          = total_cpu st + entity_sum d (fetch n)"
    if "eligible e d = Inr True" "Name d = Some n" "CPU_h d = Some c"
    using process_details_entity_sum [OF that(1) that(2), of fetch pos st] that(3) by simp
  have c: "entity_sum d data = sum_list (map record_total (filter counted data))"
    if "\<forall>r \<in> set data. \<not> record_raises d r"
  proof -
    have "takeWhile (\<lambda>r. \<not> record_raises d r) data = data"
      using that by (simp add: takeWhile_eq_all_conv)
    then show ?thesis by (simp only: entity_sum_def reached_def)
  qed
  show ?thesis using a b c main_sum by blast
qed

theorem totals_are_exact_sums_witness:
  "total_cpu (snd (snd (main
       \<lparr>ACCOUNTING_SCOPE = ''htc'', DATE_FROM = ''2024/01'', DATE_TO = ''2024/03''\<rparr>
       (\<lambda>n. [\<lparr>rec_id = Some ''ALPHA-site1'', rec_Total = Some 40\<rparr>,
              \<lparr>rec_id = Some ''ALPHA-Total'', rec_Total = Some 300\<rparr>])
       [\<lparr>vos = [\<lparr>vo = [\<lparr>Name = Some ''ALPHA'', Type = Some ''htc'', Active = Some ''Y'',
          SLA_start = Some ''2023/01'', SLA_end = Some ''2025/12'', CPU_h = Some 0\<rparr>]\<rparr>]\<rparr>]
       [[''Period'']]))) = 300"
proof -
  let ?e = "\<lparr>ACCOUNTING_SCOPE = ''htc'', DATE_FROM = ''2024/01'', DATE_TO = ''2024/03''\<rparr>"
  let ?d = "\<lparr>Name = Some ''ALPHA'', Type = Some ''htc'', Active = Some ''Y'',
        SLA_start = Some ''2023/01'', SLA_end = Some ''2025/12'', CPU_h = Some 0\<rparr>"
  let ?f = "\<lambda>n::string. [\<lparr>rec_id = Some ''ALPHA-site1'', rec_Total = Some 40\<rparr>,
              \<lparr>rec_id = Some ''ALPHA-Total'', rec_Total = Some 300\<rparr>]"
  let ?V = "[\<lparr>vos = [\<lparr>vo = [?d]\<rparr>]\<rparr>]"
  have k: "\<forall>d \<in> set (registry_entries ?V). keys_present d"
    by (simp add: registry_entries_def keys_present_def)
  have n: "fst (main ?e ?f ?V [[''Period'']]) = None"
    using main_no_raise [OF k] .
  have r: "run_sum ?e ?f ?V = 300"
    by (simp add: run_sum_def registry_entries_def entity_share_def eligible_def
        entity_sum_def reached_def record_raises_def counted_def record_total_def)
  show ?thesis
    using totals_are_exact_sums [where e = ?e and fetch = ?f and VOs = ?V
        and ws = "[[''Period'']]"] n r
    by simp
qed








end
